theory Spec2Isabelle
  imports Complex_Main "HOL-Library.Sublist" "HOL-Library.AList"
begin

section \<open>Python values the scripts compute with\<close>

subsection \<open>Strings\<close>

text \<open>
  A Python \<open>str\<close> is a sequence of code points. The model takes the code points below 256
  (Latin-1, which holds every accented letter the scripts name): a \<open>char\<close> is one code
  point, so \<open>CHR 0xE3\<close> is the letter a with tilde. Code points from 256 on are outside the
  model; \<open>str.lower\<close>, \<open>str.strip\<close> and the digit class are the Unicode ones restricted to
  this range.
\<close>

definition isspace :: "char \<Rightarrow> bool" where
  \<comment> \<open>\<open>str.isspace\<close> on one code point: what \<open>str.strip()\<close> removes\<close>
  "isspace c = (c \<in> set [CHR 0x09, CHR 0x0A, CHR 0x0B, CHR 0x0C, CHR 0x0D,
                          CHR 0x1C, CHR 0x1D, CHR 0x1E, CHR 0x1F, CHR 0x20, CHR 0x85, CHR 0xA0])"

definition py_strip :: "string \<Rightarrow> string" where
  "py_strip s = rev (dropWhile isspace (rev (dropWhile isspace s)))"

definition isupper :: "char \<Rightarrow> bool" where
  \<comment> \<open>the code points \<open>str.lower\<close> changes: A-Z and the Latin-1 capitals but the times sign\<close>
  "isupper c = (let n = (of_char c :: nat) in
     (65 \<le> n \<and> n \<le> 90) \<or> (192 \<le> n \<and> n \<le> 222 \<and> n \<noteq> 215))"

definition lower_char :: "char \<Rightarrow> char" where
  "lower_char c = (if isupper c then char_of ((of_char c :: nat) + 32) else c)"

definition py_lower :: "string \<Rightarrow> string" where
  "py_lower s = map lower_char s"

function py_replace :: "string \<Rightarrow> string \<Rightarrow> string \<Rightarrow> string" where
  \<comment> \<open>\<open>s.replace(old, new)\<close>: every occurrence, left to right, without overlap\<close>
  "py_replace old new s =
     (if old = [] then new @ concat (map (\<lambda>c. c # new) s)
      else if s = [] then []
      else if prefix old s then new @ py_replace old new (drop (length old) s)
      else hd s # py_replace old new (tl s))"
  by pat_completeness auto
termination
  by (relation "measure (\<lambda>(old, new, s). length s)") (auto simp: neq_Nil_conv)

definition endswith :: "string \<Rightarrow> string \<Rightarrow> bool" where
  "endswith s suf = suffix suf s"

definition isdigit :: "char \<Rightarrow> bool" where
  \<comment> \<open>the decimal digits (category Nd) below 256: the regex class \<open>\d\<close>\<close>
  "isdigit c = (c \<in> set ''0123456789'')"

definition digit_val :: "char \<Rightarrow> nat" where
  "digit_val c = of_char c - 48"

definition digits_val :: "string \<Rightarrow> nat" where
  "digits_val ds = foldl (\<lambda>a c. 10 * a + digit_val c) 0 ds"

subsection \<open>Floats\<close>

text \<open>
  A Python \<open>float\<close> is an IEEE-754 binary64 number. A finite one is modelled by the rational
  it denotes (the two zeros are one value, as under \<open>==\<close>); every operation computes
  exactly and then rounds to the nearest binary64 number, ties to even, as the hardware does.
\<close>

datatype pyfloat = Finite rat | PosInf | NegInf | NaN

definition pow2 :: "int \<Rightarrow> rat" where
  "pow2 e = (if 0 \<le> e then 2 ^ nat e else 1 / 2 ^ nat (- e))"

fun bitlen :: "nat \<Rightarrow> nat" where
  "bitlen n = (if n = 0 then 0 else Suc (bitlen (n div 2)))"

definition ilog2 :: "rat \<Rightarrow> int" where
  \<comment> \<open>for \<open>0 < q\<close>: the \<open>e\<close> with \<open>2 ^ e \<le> q < 2 ^ (e + 1)\<close>\<close>
  "ilog2 q = (if 1 \<le> q then int (bitlen (nat \<lfloor>q\<rfloor>)) - 1
              else let k = int (bitlen (nat \<lfloor>1 / q\<rfloor>)) - 1
                   in if pow2 (- k) \<le> q then - k else - k - 1)"

definition round_half_even :: "rat \<Rightarrow> int" where
  "round_half_even q = (let f = \<lfloor>q\<rfloor>; r = q - of_int f in
     if r < 1 / 2 then f else if 1 / 2 < r then f + 1 else if even f then f else f + 1)"

definition to_double :: "rat \<Rightarrow> pyfloat" where
  \<comment> \<open>the binary64 number nearest to \<open>q\<close>: 53 significant bits \<open>m\<close>, exponents \<open>e\<close> from
      -1022, and infinity once the rounded value \<open>m * 2 ^ (e - 52)\<close> reaches \<open>2 ^ 1024\<close>\<close>
  "to_double q = (if q = 0 then Finite 0 else
     let a = \<bar>q\<bar>;
         e = max (ilog2 a) (- 1022);
         u = pow2 (e - 52);
         m = round_half_even (a / u)
     in if 1023 < e \<or> (e = 1023 \<and> 2 ^ 53 \<le> m) then (if 0 < q then PosInf else NegInf)
        else Finite (if 0 < q then of_int m * u else - (of_int m * u)))"

text \<open>
  Exceptions are values. The first group are the \<open>RuntimeError\<close>s the scripts raise, told
  apart by their message; the others are raised by the Python runtime or by a library.
\<close>

datatype error =
    MissingColumn string          \<comment> \<open>a required column is absent from a sheet\<close>
  | LevelNotFound string          \<comment> \<open>no row of the level sheet has the level\<close>
  | InvalidPercent string string  \<comment> \<open>the percentage cell does not end in a percent sign\<close>
  | NoPeople                      \<comment> \<open>no collaborator holds the role\<close>
  | ValueError
  | OverflowError
  | ZeroDivisionError
  | AttributeError
  | PatternError                  \<comment> \<open>\<open>re.error\<close>: a pattern that does not compile\<close>
  | OperationalError              \<comment> \<open>the database driver could not connect\<close>

definition fadd :: "pyfloat \<Rightarrow> pyfloat \<Rightarrow> pyfloat" where
  "fadd x y = (case (x, y) of
      (NaN, _) \<Rightarrow> NaN
    | (_, NaN) \<Rightarrow> NaN
    | (PosInf, NegInf) \<Rightarrow> NaN
    | (NegInf, PosInf) \<Rightarrow> NaN
    | (PosInf, _) \<Rightarrow> PosInf
    | (NegInf, _) \<Rightarrow> NegInf
    | (_, PosInf) \<Rightarrow> PosInf
    | (_, NegInf) \<Rightarrow> NegInf
    | (Finite a, Finite b) \<Rightarrow> to_double (a + b))"

definition fsign :: "pyfloat \<Rightarrow> int" where
  "fsign x = (case x of
      Finite a \<Rightarrow> (if a = 0 then 0 else if 0 < a then 1 else - 1)
    | PosInf \<Rightarrow> 1
    | NegInf \<Rightarrow> - 1
    | NaN \<Rightarrow> 0)"

definition fmul :: "pyfloat \<Rightarrow> pyfloat \<Rightarrow> pyfloat" where
  "fmul x y = (case (x, y) of
      (NaN, _) \<Rightarrow> NaN
    | (_, NaN) \<Rightarrow> NaN
    | (Finite a, Finite b) \<Rightarrow> to_double (a * b)
    | _ \<Rightarrow> (let s = fsign x * fsign y in
              if s = 0 then NaN else if 0 < s then PosInf else NegInf))"

definition fdiv :: "pyfloat \<Rightarrow> pyfloat \<Rightarrow> error + pyfloat" where
  \<comment> \<open>\<open>x / y\<close>: Python raises on a zero divisor\<close>
  "fdiv x y = (case (x, y) of
      (_, Finite b) \<Rightarrow>
        if b = 0 then Inl ZeroDivisionError
        else (case x of
                Finite a \<Rightarrow> Inr (to_double (a / b))
              | NaN \<Rightarrow> Inr NaN
              | _ \<Rightarrow> Inr (if 0 < fsign x * fsign y then PosInf else NegInf))
    | (NaN, _) \<Rightarrow> Inr NaN
    | (_, NaN) \<Rightarrow> Inr NaN
    | (Finite a, _) \<Rightarrow> Inr (Finite 0)
    | _ \<Rightarrow> Inr NaN)"

definition py_round2 :: "pyfloat \<Rightarrow> pyfloat" where
  \<comment> \<open>\<open>round(x, 2)\<close>: the exact value rounded to two decimals, ties to even, then to the
      nearest float; infinities and NaN round to themselves\<close>
  "py_round2 x = (case x of
      Finite a \<Rightarrow> to_double (of_int (round_half_even (a * 100)) / 100)
    | _ \<Rightarrow> x)"

definition py_round_int :: "pyfloat \<Rightarrow> error + int" where
  \<comment> \<open>\<open>round(x)\<close>: the nearest integer, ties to even\<close>
  "py_round_int x = (case x of
      Finite a \<Rightarrow> Inr (round_half_even a)
    | NaN \<Rightarrow> Inl ValueError
    | _ \<Rightarrow> Inl OverflowError)"

definition float_of_int :: "int \<Rightarrow> error + pyfloat" where
  \<comment> \<open>\<open>float(n)\<close> for an \<open>int\<close>: an integer too large for a float raises\<close>
  "float_of_int n = (case to_double (of_int n) of
      Finite a \<Rightarrow> Inr (Finite a)
    | _ \<Rightarrow> Inl OverflowError)"

subsection \<open>Reading a number from a string\<close>

text \<open>
  \<open>float(s)\<close> and \<open>Decimal(s)\<close> read the same numerals: digits with an optional point and an
  optional exponent, at least one digit before or after the point. \<open>float\<close> lets single
  underscores stand between digits; \<open>Decimal\<close> drops every underscore before it reads.
\<close>

fun digitpart :: "string \<Rightarrow> string \<times> string" where
  \<comment> \<open>the longest prefix \<open>digit (["_"] digit)*\<close>, without its underscores, and the rest\<close>
  "digitpart (c # u # d # rest) =
     (if \<not> isdigit c then ([], c # u # d # rest)
      else if u = CHR ''_'' \<and> isdigit d then apfst (Cons c) (digitpart (d # rest))
      else apfst (Cons c) (digitpart (u # d # rest)))"
| "digitpart (c # cs) = (if isdigit c then apfst (Cons c) (digitpart cs) else ([], c # cs))"
| "digitpart [] = ([], [])"

definition pow10 :: "int \<Rightarrow> rat" where
  "pow10 e = (if 0 \<le> e then 10 ^ nat e else 1 / 10 ^ nat (- e))"

definition split_sign :: "string \<Rightarrow> bool \<times> string" where
  "split_sign s = (case s of
      c # r \<Rightarrow> if c = CHR ''-'' then (True, r) else if c = CHR ''+'' then (False, r) else (False, s)
    | [] \<Rightarrow> (False, []))"

definition scan_exponent :: "string \<Rightarrow> int option" where
  \<comment> \<open>what follows the mantissa: nothing, or \<open>e\<close>, an optional sign and digits\<close>
  "scan_exponent s = (case s of
      [] \<Rightarrow> Some 0
    | c # r \<Rightarrow>
        if c = CHR ''e'' \<or> c = CHR ''E'' then
          (let (neg, r') = split_sign r;
               (ds, rest) = digitpart r'
           in if ds = [] \<or> rest \<noteq> [] then None
              else Some (if neg then - int (digits_val ds) else int (digits_val ds)))
        else None)"

definition scan_number :: "string \<Rightarrow> rat option" where
  \<comment> \<open>an unsigned numeral, read to the end of the string\<close>
  "scan_number s =
     (let (ip, r1) = digitpart s;
          (fp, r2) = (case r1 of
                        c # r \<Rightarrow> if c = CHR ''.'' then digitpart r else ([], r1)
                      | [] \<Rightarrow> ([], []))
      in if ip = [] \<and> fp = [] then None
         else (case scan_exponent r2 of
                 None \<Rightarrow> None
               | Some e \<Rightarrow> Some (of_nat (digits_val (ip @ fp)) * pow10 (e - int (length fp)))))"

definition float_isspace :: "char \<Rightarrow> bool" where
  \<comment> \<open>the white space \<open>float\<close> skips at both ends: the C one, and the spaces beyond ASCII\<close>
  "float_isspace c = (c \<in> set [CHR 0x09, CHR 0x0A, CHR 0x0B, CHR 0x0C, CHR 0x0D, CHR 0x20,
                                CHR 0x85, CHR 0xA0])"

definition float_of_str :: "string \<Rightarrow> pyfloat option" where
  \<comment> \<open>\<open>float(s)\<close>; \<open>None\<close> is its \<open>ValueError\<close>\<close>
  "float_of_str s =
     (let t = rev (dropWhile float_isspace (rev (dropWhile float_isspace s)));
          (neg, body) = split_sign t
      in case scan_number body of
           Some q \<Rightarrow> Some (to_double (if neg then - q else q))
         | None \<Rightarrow>
             (let l = py_lower body in
              if l = ''inf'' \<or> l = ''infinity'' then Some (if neg then NegInf else PosInf)
              else if l = ''nan'' then Some NaN
              else None))"

datatype pydecimal = DFinite rat | DInf bool | DNaN | DSNaN

definition Decimal :: "string \<Rightarrow> pydecimal option" where
  \<comment> \<open>\<open>Decimal(s)\<close>; \<open>None\<close> is its \<open>InvalidOperation\<close>. (The exponent limits of the C
      implementation are not modelled.)\<close>
  "Decimal s =
     (let (neg, body) = split_sign (filter (\<lambda>c. c \<noteq> CHR ''_'') (py_strip s))
      in case scan_number body of
           Some q \<Rightarrow> Some (DFinite (if neg then - q else q))
         | None \<Rightarrow>
             (let l = py_lower body in
              if l = ''inf'' \<or> l = ''infinity'' then Some (DInf neg)
              else if take 3 l = ''nan'' \<and> list_all isdigit (drop 3 l) then Some DNaN
              else if take 4 l = ''snan'' \<and> list_all isdigit (drop 4 l) then Some DSNaN
              else None))"

definition float_of_Decimal :: "pydecimal \<Rightarrow> pyfloat option" where
  \<comment> \<open>\<open>float(d)\<close>; \<open>None\<close> is the \<open>ValueError\<close> for a signalling NaN\<close>
  "float_of_Decimal d = (case d of
      DFinite q \<Rightarrow> Some (to_double q)
    | DInf neg \<Rightarrow> Some (if neg then NegInf else PosInf)
    | DNaN \<Rightarrow> Some NaN
    | DSNaN \<Rightarrow> None)"

section \<open>The money parsers\<close>

text \<open>The values a cell or an argument can be: \<open>None\<close>, an \<open>int\<close>, a \<open>float\<close> or a \<open>str\<close>.\<close>

datatype pyval = PNone | PInt int | PFloat pyfloat | PStr string

definition comma_text :: "string \<Rightarrow> string" where
  \<comment> \<open>\<open>if "," in s: s = s.replace(".", "").replace(",", ".")\<close>, in both parsers\<close>
  "comma_text s = (if CHR '','' \<in> set s then py_replace '','' ''.'' (py_replace ''.'' [] s) else s)"

definition number_clean :: "string \<Rightarrow> string" where
  \<comment> \<open>\<open>re.sub(r"[^\d,\.\-+]", "", s)\<close>: every character but digits, commas, points and
      signs is deleted\<close>
  "number_clean s = filter (\<lambda>c. isdigit c \<or> c \<in> set '',.-+'') s"

definition number_text :: "string \<Rightarrow> string" where
  \<comment> \<open>what \<open>parse_ptbr_number\<close> hands to \<open>Decimal\<close>, from the stripped string\<close>
  "number_text s = comma_text (number_clean s)"

definition parse_ptbr_number :: "pyval \<Rightarrow> error + pyfloat" where
  \<comment> \<open>\<open>audaz_comissoes/number.py\<close>\<close>
  "parse_ptbr_number x = (case x of
      PNone \<Rightarrow> Inr (Finite 0)
    | PInt n \<Rightarrow> float_of_int n
    | PFloat f \<Rightarrow> Inr f
    | PStr v \<Rightarrow>
        (let s = py_strip v in
         if s = [] then Inr (Finite 0)
         else (case Decimal (number_text s) of
                 None \<Rightarrow> Inr (Finite 0)
               | Some d \<Rightarrow> (case float_of_Decimal d of
                              None \<Rightarrow> Inr (Finite 0)
                            | Some f \<Rightarrow> Inr f))))"

definition money_clean :: "string \<Rightarrow> string" where
  \<comment> \<open>\<open>s.replace("R$", "").replace(" ", "")\<close>\<close>
  "money_clean s = py_replace '' '' [] (py_replace ''R$'' [] s)"

definition money_text :: "string \<Rightarrow> string" where
  \<comment> \<open>what \<open>parse_ptbr_money\<close> hands to \<open>float\<close>, from the stripped string\<close>
  "money_text s = comma_text (money_clean s)"

definition parse_ptbr_money :: "pyval \<Rightarrow> error + pyfloat" where
  \<comment> \<open>the scripts' own parser (the two scripts hold the same text)\<close>
  "parse_ptbr_money x = (case x of
      PNone \<Rightarrow> Inr (Finite 0)
    | PInt n \<Rightarrow> float_of_int n
    | PFloat f \<Rightarrow> Inr f
    | PStr v \<Rightarrow>
        (let s = py_strip v in
         if s = [] then Inr (Finite 0)
         else (case float_of_str (money_text s) of
                 None \<Rightarrow> Inr (Finite 0)
               | Some f \<Rightarrow> Inr f)))"

section \<open>Sheets as data frames\<close>

text \<open>
  \<open>read_sheet_by_gid\<close> builds a frame from the strings of a sheet, so every cell is a
  \<open>str\<close>. A frame is its column names and its rows; a row gives the cell under each
  column name (what it gives under a name that is not a column is never read).
\<close>

record dataframe =
  columns :: "string list"
  rows :: "(string \<Rightarrow> string) list"

definition series_get :: "dataframe \<Rightarrow> (string \<Rightarrow> string) \<Rightarrow> string \<Rightarrow> string option" where
  \<comment> \<open>\<open>r.get(c)\<close> on a row of the frame: \<open>None\<close> for a name that is not a column\<close>
  "series_get df r c = (if c \<in> set (columns df) then Some (r c) else None)"

definition str_or_empty :: "string option \<Rightarrow> string" where
  \<comment> \<open>\<open>str(x or "")\<close> for a string or \<open>None\<close>\<close>
  "str_or_empty x = (case x of None \<Rightarrow> [] | Some v \<Rightarrow> v)"

abbreviation col_Codigo :: string where
  "col_Codigo \<equiv> CHR ''C'' # CHR 0xF3 # ''digo''"

abbreviation col_Funcao :: string where
  "col_Funcao \<equiv> CHR ''F'' # CHR ''u'' # CHR ''n'' # CHR 0xE7 # CHR 0xE3 # ''o''"

abbreviation col_Nivel :: string where
  "col_Nivel \<equiv> CHR ''N'' # CHR 0xED # ''vel''"

section \<open>The level rate resolver\<close>

definition norm_text :: "string \<Rightarrow> string" where
  \<comment> \<open>\<open>_norm_text\<close>, and \<open>_norm_level\<close> of the second script (the same text)\<close>
  "norm_text s =
     (let s = py_lower (py_strip s) in
      py_replace [CHR 0xE7] ''c''
        (py_replace [CHR 0xFA] ''u''
          (py_replace [CHR 0xF4] ''o'' (py_replace [CHR 0xF3] ''o''
            (py_replace [CHR 0xED] ''i''
              (py_replace [CHR 0xEA] ''e'' (py_replace [CHR 0xE9] ''e''
                (py_replace [CHR 0xE2] ''a'' (py_replace [CHR 0xE0] ''a''
                  (py_replace [CHR 0xE1] ''a'' (py_replace [CHR 0xE3] ''a'' s)))))))))))"

definition percent_text :: "string \<Rightarrow> string" where
  \<comment> \<open>\<open>pct_num\<close>: the cell without its percent signs, stripped, points dropped, the comma
      as decimal point\<close>
  "percent_text pct_str =
     py_replace '','' ''.'' (py_replace ''.'' [] (py_strip (py_replace ''%'' [] pct_str)))"

definition percent_of_row :: "dataframe \<Rightarrow> string \<Rightarrow> (string \<Rightarrow> string) \<Rightarrow> error + pyfloat" where
  \<comment> \<open>what both resolvers do with \<open>row.iloc[0]\<close>, the first matching row\<close>
  "percent_of_row df nv r =
     (let pct_str = py_strip (str_or_empty (series_get df r ''Sales Executive'')) in
      if \<not> endswith pct_str ''%'' then Inl (InvalidPercent nv pct_str)
      else (case float_of_str (percent_text pct_str) of
              None \<Rightarrow> Inl ValueError
            | Some f \<Rightarrow> fdiv f (Finite 100)))"

definition get_percentual_sales_exec :: "dataframe \<Rightarrow> string \<Rightarrow> error + pyfloat" where
  \<comment> \<open>\<open>test_sales_exec_comp_by_date_creation_and_date_comission.py\<close>\<close>
  "get_percentual_sales_exec df_niveis nv =
     (if ''Niveis'' \<notin> set (columns df_niveis) then Inl (MissingColumn ''Niveis'')
      else
        let nk = norm_text nv;
            row = filter (\<lambda>r. norm_text (r ''Niveis'') = nk) (rows df_niveis)
        in case row of
             [] \<Rightarrow> Inl (LevelNotFound nv)
           | r # _ \<Rightarrow> percent_of_row df_niveis nv r)"



section \<open>The roster extractor\<close>

record person =
  p_nome :: string
  p_email :: string
  p_nivel :: string

fun collect_people :: "dataframe \<Rightarrow> (string \<Rightarrow> string) list \<Rightarrow> person list \<Rightarrow> person list" where
  \<comment> \<open>the loop over \<open>df.iterrows()\<close>\<close>
  "collect_people df [] people = people"
| "collect_people df (r # rs) people =
     (let nome = py_strip (str_or_empty (series_get df r ''Colaborador''));
          email = py_strip (str_or_empty (series_get df r ''Email''));
          nv = py_strip (str_or_empty (series_get df r col_Nivel))
      in if nome = [] \<or> nv = [] then collect_people df rs people
         else collect_people df rs (people @ [\<lparr>p_nome = nome, p_email = email, p_nivel = nv\<rparr>]))"

definition person_key :: "person \<Rightarrow> string" where
  \<comment> \<open>\<open>(p["email"] or p["nome"]).strip().lower()\<close>\<close>
  "person_key p = py_lower (py_strip (if p_email p \<noteq> [] then p_email p else p_nome p))"

fun uniq_people :: "person list \<Rightarrow> string set \<Rightarrow> person list \<Rightarrow> person list" where
  \<comment> \<open>the loop that keeps a person whose key was not seen\<close>
  "uniq_people [] seen uniq = uniq"
| "uniq_people (p # ps) seen uniq =
     (let key = person_key p in
      if key \<in> seen then uniq_people ps seen uniq
      else uniq_people ps (insert key seen) (uniq @ [p]))"

definition get_sales_exec_people :: "dataframe \<Rightarrow> error + person list" where
  "get_sales_exec_people df_meta =
     (case filter (\<lambda>c. c \<notin> set (columns df_meta)) [''Colaborador'', ''Email'', col_Funcao, col_Nivel] of
        c # _ \<Rightarrow> Inl (MissingColumn c)
      | [] \<Rightarrow>
          let df = filter (\<lambda>r. norm_text (r col_Funcao) = norm_text ''Sales Executive'') (rows df_meta);
              people = collect_people df_meta df []
          in Inr (uniq_people people {} []))"

text \<open>
  The roster in the words of the specification: of the candidates in row order, keep the
  first of each key.
\<close>

fun first_of_each_key :: "('a \<Rightarrow> 'k) \<Rightarrow> 'a list \<Rightarrow> 'a list" where
  "first_of_each_key key [] = []"
| "first_of_each_key key (p # ps) = p # first_of_each_key key (filter (\<lambda>q. key q \<noteq> key p) ps)"

definition roster_candidates :: "dataframe \<Rightarrow> person list" where
  "roster_candidates df_meta =
     filter (\<lambda>p. p_nome p \<noteq> [] \<and> p_nivel p \<noteq> [])
       (map (\<lambda>r. \<lparr>p_nome = py_strip (r ''Colaborador''), p_email = py_strip (r ''Email''),
                  p_nivel = py_strip (r col_Nivel)\<rparr>)
          (filter (\<lambda>r. norm_text (r col_Funcao) = norm_text ''Sales Executive'') (rows df_meta)))"

section \<open>The date lookup\<close>

text \<open>
  The driver is outside the repository. The model has what the query returns for a shipment
  number (the first row in creation order, if there is one), whether a connection can be
  made, and a trail of what the code asks of the driver.
\<close>

record datetime =
  year :: nat
  month :: nat
  day :: nat

record database =
  reachable :: bool
  shipment_house :: "string \<Rightarrow> (datetime option \<times> datetime option) option"

datatype db_event = Connect | Execute string | Close

type_synonym ShipmentDates = "datetime option \<times> datetime option"

definition get_shipment_dates_by_number ::
  "database \<Rightarrow> string option \<Rightarrow> db_event list \<Rightarrow> db_event list \<times> (error + ShipmentDates)" where
  "get_shipment_dates_by_number db shipment_number evs =
     (case shipment_number of
        None \<Rightarrow> (evs, Inr (None, None))
      | Some sn \<Rightarrow>
          if sn = [] then (evs, Inr (None, None))
          else if \<not> reachable db then (evs @ [Connect], Inl OperationalError)
          else (evs @ [Connect, Execute sn, Close],
                Inr (case shipment_house db sn of
                       None \<Rightarrow> (None, None)
                     | Some row \<Rightarrow> row)))"

definition get_dates_by_shipment_number ::
  "database \<Rightarrow> string option \<Rightarrow> db_event list \<Rightarrow> db_event list \<times> (error + ShipmentDates)" where
  "get_dates_by_shipment_number db shipment_number evs =
     (case get_shipment_dates_by_number db shipment_number evs of
        (evs', Inl e) \<Rightarrow> (evs', Inl e)
      | (evs', Inr d) \<Rightarrow> (evs', Inr (fst d, snd d)))"

section \<open>The transaction filter and the aggregation\<close>

definition digit_char :: "nat \<Rightarrow> char" where
  "digit_char n = ''0123456789'' ! (n mod 10)"

fun str_nat :: "nat \<Rightarrow> string" where
  "str_nat n = (if n < 10 then [digit_char n] else str_nat (n div 10) @ [digit_char n])"

definition str_int :: "int \<Rightarrow> string" where
  "str_int i = (if i < 0 then CHR ''-'' # str_nat (nat (- i)) else str_nat (nat i))"

definition zero_pad :: "nat \<Rightarrow> string \<Rightarrow> string" where
  "zero_pad w s = replicate (w - length s) CHR ''0'' @ s"

definition to_yyyymm :: "datetime \<Rightarrow> string" where
  \<comment> \<open>\<open>_to_yyyymm\<close>\<close>
  "to_yyyymm d = zero_pad 4 (str_nat (year d)) @ ''-'' @ zero_pad 2 (str_nat (month d))"

text \<open>
  \<open>df["Vendedor"].str.contains(nome, case=False, na=False)\<close> is pandas' search for a
  regular expression (\<open>regex=True\<close> is its default), ignoring case. The engine is outside
  the repository: \<open>str_contains nome\<close> is the compiled pattern as a test on a cell, or
  \<open>None\<close> when \<open>nome\<close> does not compile. For a name without metacharacters the search is
  the search for the name itself, which \<open>contains_name\<close> is.
\<close>

definition contains_name :: "string \<Rightarrow> (string \<Rightarrow> bool) option" where
  "contains_name nome = Some (\<lambda>v. sublist (py_lower nome) (py_lower v))"

definition filter_apurado_by_vendedor ::
  "(string \<Rightarrow> (string \<Rightarrow> bool) option) \<Rightarrow> dataframe \<Rightarrow> string \<Rightarrow> error + dataframe" where
  "filter_apurado_by_vendedor str_contains df_ap nome =
     (if col_Codigo \<notin> set (columns df_ap) then Inl (MissingColumn col_Codigo)
      else if ''Vendedor'' \<notin> set (columns df_ap) then Inl (MissingColumn ''Vendedor'')
      else (case str_contains nome of
              None \<Rightarrow> Inl PatternError
            | Some m \<Rightarrow> Inr (df_ap\<lparr>rows := filter (\<lambda>r. m (r ''Vendedor'')) (rows df_ap)\<rparr>)))"

definition debug_precheck_in_apurados :: "dataframe \<Rightarrow> string \<Rightarrow> dataframe" where
  \<comment> \<open>\<open>_debug_precheck_in_apurados\<close>: the frame it was given, as the call leaves it\<close>
  "debug_precheck_in_apurados df_ap debug_code =
     (if debug_code = [] then df_ap
      else if col_Codigo \<notin> set (columns df_ap) then df_ap
      else df_ap\<lparr>columns := (if ''_codigo_norm'' \<in> set (columns df_ap) then columns df_ap
                               else columns df_ap @ [''_codigo_norm'']),
                   rows := map (\<lambda>r. r(''_codigo_norm'' := py_strip (r col_Codigo))) (rows df_ap)\<rparr>)"

text \<open>
  A line of the report. The script stores the two dates as \<open>strftime("%Y-%m-%d")\<close> texts;
  the model keeps the dates.
\<close>

record out_row =
  o_codigo :: string
  o_date_creation :: datetime
  o_date_comission :: datetime
  o_nivel :: string
  o_percentual :: string
  o_gp :: pyfloat
  o_valor_comissao :: pyfloat

datatype outcome = Continue | Raise error | Append out_row

definition row_outcome ::
  "database \<Rightarrow> string \<Rightarrow> dataframe \<Rightarrow> string \<Rightarrow> string \<Rightarrow> string \<Rightarrow> string \<Rightarrow> pyfloat \<Rightarrow>
   (string \<Rightarrow> string) \<Rightarrow> outcome" where
  \<comment> \<open>the body of the loop over the person's rows: \<open>continue\<close>, an exception, or a line\<close>
  "row_outcome db debug_code df competencia pay_yyyymm nv percentual pct r =
     (let codigo = py_strip (str_or_empty (series_get df r col_Codigo)) in
      if codigo = [] then Continue
      else if debug_code \<noteq> [] \<and> codigo \<noteq> debug_code then Continue
      else (case snd (get_dates_by_shipment_number db (Some codigo) []) of
              Inl e \<Rightarrow> Raise e
            | Inr (None, _) \<Rightarrow> Continue
            | Inr (Some dt_creation, None) \<Rightarrow> Continue
            | Inr (Some dt_creation, Some dt_comission) \<Rightarrow>
                if to_yyyymm dt_creation \<noteq> competencia then Continue
                else if to_yyyymm dt_comission \<noteq> pay_yyyymm then Continue
                else (case parse_ptbr_money
                             (case series_get df r ''Profit Liquido'' of
                                None \<Rightarrow> PNone | Some v \<Rightarrow> PStr v) of
                        Inl e \<Rightarrow> Raise e
                      | Inr gp \<Rightarrow>
                          Append \<lparr>o_codigo = codigo, o_date_creation = dt_creation,
                                  o_date_comission = dt_comission, o_nivel = nv,
                                  o_percentual = percentual, o_gp = gp,
                                  o_valor_comissao = py_round2 (fmul gp pct)\<rparr>)))"

fun rows_loop ::
  "((string \<Rightarrow> string) \<Rightarrow> outcome) \<Rightarrow> bool \<Rightarrow> (string \<Rightarrow> string) list \<Rightarrow>
   out_row list \<times> pyfloat \<times> pyfloat \<Rightarrow> error + out_row list \<times> pyfloat \<times> pyfloat" where
  \<comment> \<open>\<open>for _, r in df_person.iterrows()\<close>, with \<open>out_rows\<close>, \<open>gp_total\<close> and \<open>com_total\<close>;
      under a debug code the loop breaks after its first line\<close>
  "rows_loop body debug [] acc = Inr acc"
| "rows_loop body debug (r # rs) (out_rows, gp_total, com_total) =
     (case body r of
        Continue \<Rightarrow> rows_loop body debug rs (out_rows, gp_total, com_total)
      | Raise e \<Rightarrow> Inl e
      | Append line \<Rightarrow>
          (let acc = (out_rows @ [line], fadd gp_total (o_gp line),
                      fadd com_total (o_valor_comissao line))
           in if debug then Inr acc else rows_loop body debug rs acc))"

record period_report =
  pr_comp :: string
  pr_rows :: "out_row list"
  pr_gp_total :: pyfloat
  pr_com_total :: pyfloat

record person_report =
  periods :: "period_report list"
  gp_total_all :: pyfloat
  com_total_all :: pyfloat

fun comps_loop ::
  "(string \<Rightarrow> error + out_row list \<times> pyfloat \<times> pyfloat) \<Rightarrow> string list \<Rightarrow> person_report \<Rightarrow>
   error + person_report" where
  \<comment> \<open>\<open>for comp in competencias\<close>: a period without lines is reported and adds nothing\<close>
  "comps_loop period [] rep = Inr rep"
| "comps_loop period (competencia # comps) rep =
     (case period competencia of
        Inl e \<Rightarrow> Inl e
      | Inr (out_rows, gp_total, com_total) \<Rightarrow>
          (let section = \<lparr>pr_comp = competencia, pr_rows = out_rows, pr_gp_total = gp_total,
                          pr_com_total = com_total\<rparr>
           in if out_rows = [] then comps_loop period comps (rep\<lparr>periods := periods rep @ [section]\<rparr>)
              else comps_loop period comps
                     \<lparr>periods = periods rep @ [section],
                      gp_total_all = fadd (gp_total_all rep) gp_total,
                      com_total_all = fadd (com_total_all rep) com_total\<rparr>))"

definition run_for_person ::
  "(string \<Rightarrow> (string \<Rightarrow> bool) option) \<Rightarrow> database \<Rightarrow> string option \<Rightarrow> dataframe \<Rightarrow> dataframe \<Rightarrow>
   string \<Rightarrow> string \<Rightarrow> string \<Rightarrow> string list \<Rightarrow> string \<Rightarrow> error + person_report" where
  \<comment> \<open>\<open>str_contains\<close>, \<open>db\<close> and \<open>env_debug\<close> (the variable \<open>DEBUG_CODE\<close>) are the world around
      the call; the report is what the call prints (its lines in the order they were found)
      and the pair of totals it returns\<close>
  "run_for_person str_contains db env_debug df_niveis df_ap nome email nv competencias pay_yyyymm =
     (if ''Profit Liquido'' \<notin> set (columns df_ap) then Inl (MissingColumn ''Profit Liquido'')
      else (case get_percentual_sales_exec df_niveis nv of
              Inl e \<Rightarrow> Inl e
            | Inr pct \<Rightarrow>
               (case filter_apurado_by_vendedor str_contains df_ap nome of
                  Inl e \<Rightarrow> Inl e
                | Inr df_person \<Rightarrow>
                   (let debug_code = py_strip (str_or_empty env_debug) in
                    case py_round_int (fmul pct (Finite 100)) of
                      Inl e \<Rightarrow> Inl e
                    | Inr n \<Rightarrow>
                        comps_loop
                          (\<lambda>competencia. rows_loop
                                     (row_outcome db debug_code df_person competencia pay_yyyymm nv
                                        (str_int n @ ''%'') pct)
                                     (debug_code \<noteq> []) (rows df_person) ([], Finite 0, Finite 0))
                          competencias
                          \<lparr>periods = [], gp_total_all = Finite 0, com_total_all = Finite 0\<rparr>))))"

record main_report =
  ap_after :: dataframe
  reports :: "person_report list"
  gp_geral :: pyfloat
  com_geral :: pyfloat

fun people_loop ::
  "(person \<Rightarrow> error + person_report) \<Rightarrow> person list \<Rightarrow> person_report list \<times> pyfloat \<times> pyfloat \<Rightarrow>
   error + person_report list \<times> pyfloat \<times> pyfloat" where
  \<comment> \<open>\<open>for p in people\<close>, with \<open>gp_geral\<close> and \<open>com_geral\<close>\<close>
  "people_loop run [] acc = Inr acc"
| "people_loop run (p # ps) (reps, gp_g, com_g) =
     (case run p of
        Inl e \<Rightarrow> Inl e
      | Inr rep \<Rightarrow> people_loop run ps
                     (reps @ [rep], fadd gp_g (gp_total_all rep), fadd com_g (com_total_all rep)))"

definition main ::
  "(string \<Rightarrow> (string \<Rightarrow> bool) option) \<Rightarrow> database \<Rightarrow> string option \<Rightarrow> string list \<Rightarrow> string \<Rightarrow>
   dataframe \<Rightarrow> dataframe \<Rightarrow> dataframe \<Rightarrow> error + main_report" where
  \<comment> \<open>\<open>main\<close> from the three frames it has read; \<open>competencias\<close> and \<open>pay_yyyymm\<close> are what it
      took from the environment. \<open>ap_after\<close> is the transaction frame as the run leaves it.\<close>
  "main str_contains db env_debug competencias pay_yyyymm df_niveis df_meta df_ap =
     (let debug_code = py_strip (str_or_empty env_debug);
          df_ap = debug_precheck_in_apurados df_ap debug_code
      in case get_sales_exec_people df_meta of
           Inl e \<Rightarrow> Inl e
         | Inr people \<Rightarrow>
             if people = [] then Inl NoPeople
             else (case people_loop
                          (\<lambda>p. run_for_person str_contains db env_debug df_niveis df_ap
                                 (p_nome p) (p_email p) (p_nivel p) competencias pay_yyyymm)
                          people ([], Finite 0, Finite 0) of
                     Inl e \<Rightarrow> Inl e
                   | Inr (reps, gp_g, com_g) \<Rightarrow>
                       Inr \<lparr>ap_after = df_ap, reports = reps, gp_geral = gp_g, com_geral = com_g\<rparr>))"

section \<open>The spreadsheet reader\<close>

fun safe_headers_loop ::
  "nat \<Rightarrow> string list \<Rightarrow> (string \<Rightarrow> nat option) \<Rightarrow> string list \<Rightarrow> string list" where
  \<comment> \<open>\<open>for i, h in enumerate(headers)\<close>, with the dict \<open>used\<close> and the list \<open>safe\<close>\<close>
  "safe_headers_loop i [] used safe = safe"
| "safe_headers_loop i (h # hs) used safe =
     (let base = (if py_strip h \<noteq> [] then py_strip h else ''COLUNA '' @ str_nat (i + 1));
          n = (case used base of None \<Rightarrow> 0 | Some k \<Rightarrow> k);
          name = (if n = 0 then base else base @ ''__'' @ str_nat (n + 1))
      in safe_headers_loop (i + 1) hs (used(base \<mapsto> n + 1)) (safe @ [name]))"

definition safe_headers :: "string list \<Rightarrow> string list" where
  \<comment> \<open>\<open>_safe_headers\<close>\<close>
  "safe_headers headers = safe_headers_loop 0 headers Map.empty []"

definition py_dict :: "('k \<times> 'v) list \<Rightarrow> ('k \<times> 'v) list" where
  \<comment> \<open>\<open>dict(pairs)\<close>: keys in the order they first come, each with its last value\<close>
  "py_dict kvs = foldl (\<lambda>d (k, v). AList.update k v d) [] kvs"

fun records_loop ::
  "string list \<Rightarrow> string list list \<Rightarrow> (string \<times> string) list list \<Rightarrow> (string \<times> string) list list" where
  \<comment> \<open>\<open>for row in values[header_row:]\<close>\<close>
  "records_loop headers [] records = records"
| "records_loop headers (row # rest) records =
     (let row = take (length headers) (row @ replicate (length headers) []) in
      if list_all (\<lambda>x. py_strip x = []) row then records_loop headers rest records
      else records_loop headers rest (records @ [py_dict (zip headers row)]))"

definition get_records_tolerant :: "string list list \<Rightarrow> (string \<times> string) list list" where
  \<comment> \<open>\<open>_get_records_tolerant\<close> on the values of the sheet, with \<open>header_row = 1\<close>\<close>
  "get_records_tolerant values =
     (case values of
        [] \<Rightarrow> []
      | header # data \<Rightarrow> records_loop (safe_headers header) data [])"

section \<open>Evaluating the model\<close>

text \<open>
  The recursive equations of the functions that are not defined by patterns are unfolded
  on demand only.
\<close>

declare bitlen.simps [simp del]
declare py_replace.simps [simp del]
declare str_nat.simps [simp del]

lemma py_replace_Nil: "old \<noteq> [] \<Longrightarrow> py_replace old new [] = []"
  by (simp add: py_replace.simps)

lemma py_replace_Cons:
  "old \<noteq> [] \<Longrightarrow> py_replace old new (c # cs) =
     (if prefix old (c # cs) then new @ py_replace old new (drop (length old) (c # cs))
      else c # py_replace old new cs)"
  by (subst py_replace.simps) simp

lemma py_replace_delete: "py_replace [c] [] s = filter (\<lambda>x. x \<noteq> c) s"
  by (induction s) (simp_all add: py_replace_Nil py_replace_Cons)

lemma py_replace_char: "py_replace [c] [d] s = map (\<lambda>x. if x = c then d else x) s"
  by (induction s) (auto simp: py_replace_Nil py_replace_Cons)

text \<open>
  Rounding a given rational to a float: the exponent and the significand are computed
  apart, so that each is a small calculation.
\<close>

lemma to_double_eval:
  assumes "q \<noteq> 0" and "ilog2 \<bar>q\<bar> = k" and "max k (- 1022) = e"
    and "round_half_even (\<bar>q\<bar> / pow2 (e - 52)) = m"
  shows "to_double q =
     (if 1023 < e \<or> (e = 1023 \<and> 2 ^ 53 \<le> m) then (if 0 < q then PosInf else NegInf)
      else Finite (if 0 < q then of_int m * pow2 (e - 52) else - (of_int m * pow2 (e - 52))))"
proof -
  from assms(2,3) have e: "max (ilog2 \<bar>q\<bar>) (- 1022) = e" by simp
  show ?thesis
    unfolding to_double_def Let_def e assms(4) using assms(1) by simp
qed

lemma floor_rat_numeral_div: "\<lfloor>numeral a / numeral b :: rat\<rfloor> = numeral a div numeral b"
  by (metis floor_divide_of_int_eq of_int_numeral)

lemmas num_eval = ilog2_def pow2_def round_half_even_def Let_def bitlen.simps floor_rat_numeral_div

lemma to_double_0: "to_double 0 = Finite 0"
  by (simp add: to_double_def)

lemma to_double_half: "to_double (1 / 2) = Finite (1 / 2)"
  by (subst to_double_eval [where k = "- 1" and e = "- 1" and m = "2 ^ 52"])
     (simp_all add: num_eval)

lemma to_double_5: "to_double 5 = Finite 5"
  by (subst to_double_eval [where k = 2 and e = 2 and m = "5 * 2 ^ 50"])
     (simp_all add: num_eval)


lemma to_double_500: "to_double 500 = Finite 500"
  by (subst to_double_eval [where k = 8 and e = 8 and m = "500 * 2 ^ 44"])
     (simp_all add: num_eval)

lemma to_double_1000: "to_double 1000 = Finite 1000"
  by (subst to_double_eval [where k = 9 and e = 9 and m = "1000 * 2 ^ 43"])
     (simp_all add: num_eval)

lemma to_double_1500: "to_double 1500 = Finite 1500"
  by (subst to_double_eval [where k = 10 and e = 10 and m = "1500 * 2 ^ 42"])
     (simp_all add: num_eval)




lemmas str_eval = py_strip_def isspace_def isdigit_def py_lower_def lower_char_def isupper_def
  char_of_def bit_Suc_0_iff py_replace_Nil py_replace_Cons digit_char_def str_nat.simps Let_def

section \<open>Strings of digits, signs and separators\<close>

text \<open>
  On a string that holds nothing but digits, points, commas and signs, \<open>strip\<close> changes
  nothing, and \<open>float\<close> and \<open>Decimal\<close> read the same numerals.
\<close>

lemma py_strip_id: "s = [] \<or> (\<not> isspace (hd s) \<and> \<not> isspace (last s)) \<Longrightarrow> py_strip s = s"
proof (cases "s = []")
  case True
  then show ?thesis by (simp add: py_strip_def)
next
  case False
  assume "s = [] \<or> (\<not> isspace (hd s) \<and> \<not> isspace (last s))"
  with False have h: "\<not> isspace (hd s)" "\<not> isspace (last s)" by simp_all
  from h(1) have a: "dropWhile isspace s = s"
    by (simp add: dropWhile_eq_self_iff)
  from h(2) False have b: "dropWhile isspace (rev s) = rev s"
    by (simp add: dropWhile_eq_self_iff hd_rev)
  show ?thesis by (simp add: py_strip_def a b)
qed

lemma py_replace_absent: "c \<notin> set s \<Longrightarrow> py_replace (c # cs) new s = s"
  by (induction s) (auto simp: py_replace_Nil py_replace_Cons)

lemma digitpart_no_underscore:
  "CHR ''_'' \<notin> set s \<Longrightarrow> digitpart s = (takeWhile isdigit s, dropWhile isdigit s)"
  by (induction s rule: digitpart.induct) auto

lemma scan_number_plain:
  assumes "list_all isdigit ds" and "list_all isdigit fp" and "ds @ fp \<noteq> []"
  shows "scan_number (ds @ CHR ''.'' # fp) = Some (of_nat (digits_val (ds @ fp)) / 10 ^ length fp)"
proof -
  have nd: "\<not> isdigit CHR ''.''" "\<not> isdigit CHR ''_''" by (simp_all add: isdigit_def)
  from assms(1,2) have u: "CHR ''_'' \<notin> set (ds @ CHR ''.'' # fp)" "CHR ''_'' \<notin> set fp"
    using nd by (auto simp: list_all_iff)
  from assms(1) have t: "takeWhile isdigit (ds @ CHR ''.'' # fp) = ds"
    "dropWhile isdigit (ds @ CHR ''.'' # fp) = CHR ''.'' # fp"
    using nd by (simp_all add: list_all_iff takeWhile_append2 dropWhile_append2)
  from assms(2) have t2: "takeWhile isdigit fp = fp" "dropWhile isdigit fp = []"
    by (simp_all add: list_all_iff)
  show ?thesis
    using assms(3)
    by (simp add: scan_number_def digitpart_no_underscore [OF u(1)] digitpart_no_underscore [OF u(2)]
        t t2 scan_exponent_def pow10_def field_simps)
qed

lemma lower_char_plain: "isdigit c \<or> c \<in> set ''.,-+ '' \<Longrightarrow> lower_char c = c"
  by (auto simp: lower_char_def isupper_def isdigit_def)

lemma not_space_plain: "isdigit c \<or> c \<in> set ''.,-+'' \<Longrightarrow> \<not> isspace c \<and> \<not> float_isspace c"
  by (auto simp: isspace_def float_isspace_def isdigit_def)

lemma strip_plain:
  assumes "\<forall>c\<in>set s. isdigit c \<or> c \<in> set ''.,-+''"
  shows "py_strip s = s" and "rev (dropWhile float_isspace (rev (dropWhile float_isspace s))) = s"
proof -
  from assms have n: "\<forall>c\<in>set s. \<not> isspace c \<and> \<not> float_isspace c"
    using not_space_plain by blast
  then show "py_strip s = s"
    by (intro py_strip_id) (cases "s = []", auto)
  from n have a: "dropWhile float_isspace s = s"
    by (cases s) auto
  from n have b: "dropWhile float_isspace (rev s) = rev s"
    by (cases s rule: rev_cases) auto
  show "rev (dropWhile float_isspace (rev (dropWhile float_isspace s))) = s"
    by (simp add: a b)
qed

lemma split_sign_subset: "set (snd (split_sign s)) \<subseteq> set s"
  by (auto simp: split_sign_def split: list.splits if_splits)

lemma no_letters_plain:
  assumes "\<forall>c\<in>set b. isdigit c \<or> c \<in> set ''.,-+''"
  shows "py_lower b \<noteq> ''inf''" "py_lower b \<noteq> ''infinity''" "py_lower b \<noteq> ''nan''"
    "take 3 (py_lower b) \<noteq> ''nan''" "take 4 (py_lower b) \<noteq> ''snan''"
proof -
  have "map lower_char b = b"
  proof (rule map_idI)
    fix c assume "c \<in> set b"
    with assms have "isdigit c \<or> c \<in> set ''.,-+''" by blast
    then show "lower_char c = c" by (auto simp: lower_char_plain)
  qed
  then have l: "py_lower b = b" by (simp add: py_lower_def)
  have i: "\<not> (isdigit CHR ''i'' \<or> CHR ''i'' \<in> set ''.,-+'')"
    "\<not> (isdigit CHR ''n'' \<or> CHR ''n'' \<in> set ''.,-+'')"
    "\<not> (isdigit CHR ''s'' \<or> CHR ''s'' \<in> set ''.,-+'')"
    by (simp_all add: isdigit_def)
  from assms i show "py_lower b \<noteq> ''inf''" "py_lower b \<noteq> ''infinity''" "py_lower b \<noteq> ''nan''"
    unfolding l by auto
  from assms i(2) have "b \<noteq> [] \<Longrightarrow> hd b \<noteq> CHR ''n''" by (cases b) auto
  then show "take 3 (py_lower b) \<noteq> ''nan''"
    unfolding l by (cases b) auto
  from assms i(3) have "b \<noteq> [] \<Longrightarrow> hd b \<noteq> CHR ''s''" by (cases b) auto
  then show "take 4 (py_lower b) \<noteq> ''snan''"
    unfolding l by (cases b) auto
qed

lemma Decimal_plain:
  assumes "\<forall>c\<in>set s. isdigit c \<or> c \<in> set ''.,-+''"
  shows "Decimal s = (case scan_number (snd (split_sign s)) of
           Some q \<Rightarrow> Some (DFinite (if fst (split_sign s) then - q else q)) | None \<Rightarrow> None)"
proof -
  from assms have u: "filter (\<lambda>c. c \<noteq> CHR ''_'') s = s"
    by (auto simp: isdigit_def intro!: filter_True)
  from assms split_sign_subset [of s]
  have b: "\<forall>c\<in>set (snd (split_sign s)). isdigit c \<or> c \<in> set ''.,-+''" by blast
  show ?thesis
    using no_letters_plain [OF b]
    by (simp add: Decimal_def strip_plain(1) [OF assms] u split_beta split: option.splits)
qed

lemma float_of_str_plain:
  assumes "\<forall>c\<in>set s. isdigit c \<or> c \<in> set ''.,-+''"
  shows "float_of_str s = (case scan_number (snd (split_sign s)) of
           Some q \<Rightarrow> Some (to_double (if fst (split_sign s) then - q else q)) | None \<Rightarrow> None)"
proof -
  from assms split_sign_subset [of s]
  have b: "\<forall>c\<in>set (snd (split_sign s)). isdigit c \<or> c \<in> set ''.,-+''" by blast
  show ?thesis
    using no_letters_plain [OF b]
    by (simp add: float_of_str_def strip_plain(2) [OF assms] split_beta split: option.splits)
qed

lemma float_Decimal_plain:
  assumes "\<forall>c\<in>set s. isdigit c \<or> c \<in> set ''.,-+''"
  shows "(case Decimal s of None \<Rightarrow> None | Some d \<Rightarrow> float_of_Decimal d) = float_of_str s"
  by (simp add: Decimal_plain [OF assms] float_of_str_plain [OF assms] float_of_Decimal_def
      split: option.splits)

lemma comma_clean:
  assumes w: "\<forall>c\<in>set w. isdigit c \<or> c = CHR ''.''" and fp: "list_all isdigit fp"
  shows "py_replace '','' ''.'' (py_replace ''.'' [] (w @ CHR '','' # fp)) = filter isdigit w @ CHR ''.'' # fp"
proof -
  have d: "\<not> isdigit CHR ''.''" "\<not> isdigit CHR '',''" by (simp_all add: isdigit_def)
  from w d have a: "filter (\<lambda>x. x \<noteq> CHR ''.'') w = filter isdigit w"
    by (intro filter_cong) auto
  from fp d have b: "filter (\<lambda>x. x \<noteq> CHR ''.'') fp = fp"
    by (auto simp: list_all_iff intro!: filter_True)
  have c: "map (\<lambda>x. if x = CHR '','' then CHR ''.'' else x) (filter isdigit w) = filter isdigit w"
    using d by (intro map_idI) auto
  from fp d have e: "map (\<lambda>x. if x = CHR '','' then CHR ''.'' else x) fp = fp"
    by (intro map_idI) (auto simp: list_all_iff)
  show ?thesis
    by (simp add: py_replace_delete py_replace_char a b c e)
qed

lemma py_replace_currency:
  assumes "CHR ''R'' \<notin> set s"
  shows "py_replace ''R$'' [] (CHR ''R'' # CHR ''$'' # s) = s"
    and "py_replace ''R$'' [] (CHR ''R'' # CHR ''$'' # CHR '' '' # s) = CHR '' '' # s"
  using assms by (simp_all add: py_replace_Cons py_replace_absent)

lemma comma_rule_number:
  assumes pre: "pre \<in> {[], ''R$'', ''R$ ''}"
    and w: "\<forall>c\<in>set w. isdigit c \<or> c = CHR ''.''" and fp: "list_all isdigit fp"
    and nz: "filter isdigit w @ fp \<noteq> []"
  shows "parse_ptbr_number (PStr (pre @ w @ CHR '','' # fp))
           = Inr (to_double (of_nat (digits_val (filter isdigit w @ fp)) / 10 ^ length fp))"
proof -
  let ?s = "w @ CHR '','' # fp"
  let ?t = "filter isdigit w @ CHR ''.'' # fp"
  from w fp have p: "\<forall>c\<in>set ?s. isdigit c \<or> c \<in> set ''.,-+''"
    by (auto simp: list_all_iff)
  then have cl0: "filter (\<lambda>c. isdigit c \<or> c \<in> set '',.-+'') ?s = ?s"
    by (intro filter_True) auto
  from pre have "filter (\<lambda>c. isdigit c \<or> c \<in> set '',.-+'') pre = []"
    by (auto simp: isdigit_def)
  with cl0 have cl: "filter (\<lambda>c. isdigit c \<or> c \<in> set '',.-+'') (pre @ ?s) = ?s"
    by (simp only: filter_append append_Nil)
  from fp have q: "\<forall>c\<in>set ?t. isdigit c \<or> c \<in> set ''.,-+''"
    by (auto simp: list_all_iff)
  have ds: "list_all isdigit (filter isdigit w)" by (simp add: list_all_iff)
  have nd: "\<not> isdigit CHR ''.''" by (simp add: isdigit_def)
  have sg: "split_sign ?t = (False, ?t)"
    using nd by (cases "filter isdigit w") (auto simp: split_sign_def isdigit_def list_all_iff dest!: filter_eq_ConsD)
  have dec: "Decimal ?t = Some (DFinite (of_nat (digits_val (filter isdigit w @ fp)) / 10 ^ length fp))"
    by (simp add: Decimal_plain [OF q] sg scan_number_plain [OF ds fp nz] del: append_Cons)
  have ns3: "?s \<noteq> []" by simp
  then have "hd ?s \<in> set ?s" "last ?s \<in> set ?s"
    by (rule hd_in_set, rule last_in_set)
  with p not_space_plain have ns: "\<not> isspace (hd ?s)" "\<not> isspace (last ?s)"
    by blast+
  have "\<not> isspace (hd (pre @ ?s))"
    using pre ns(1) by (auto simp: isspace_def)
  moreover have "\<not> isspace (last (pre @ ?s))"
    using ns(2) ns3 by (simp del: append_Cons)
  ultimately have st: "py_strip (pre @ ?s) = pre @ ?s"
    by (intro py_strip_id) simp
  have ne: "pre @ ?s \<noteq> []" "CHR '','' \<in> set ?s" by simp_all
  show ?thesis
    by (simp only: parse_ptbr_number_def number_text_def number_clean_def comma_text_def pyval.case Let_def st cl ne if_False if_True
        comma_clean [OF w fp] dec option.case float_of_Decimal_def pydecimal.case)
qed

lemma comma_rule_money:
  assumes pre: "pre \<in> {[], ''R$'', ''R$ ''}"
    and w: "\<forall>c\<in>set w. isdigit c \<or> c = CHR ''.''" and fp: "list_all isdigit fp"
    and nz: "filter isdigit w @ fp \<noteq> []"
  shows "parse_ptbr_money (PStr (pre @ w @ CHR '','' # fp))
           = Inr (to_double (of_nat (digits_val (filter isdigit w @ fp)) / 10 ^ length fp))"
proof -
  let ?s = "w @ CHR '','' # fp"
  let ?t = "filter isdigit w @ CHR ''.'' # fp"
  from w fp have p: "\<forall>c\<in>set ?s. isdigit c \<or> c \<in> set ''.,-+''"
    by (auto simp: list_all_iff)
  have "\<not> (isdigit CHR ''R'' \<or> CHR ''R'' \<in> set ''.,-+'')"
    "\<not> (isdigit CHR '' '' \<or> CHR '' '' \<in> set ''.,-+'')"
    by (simp_all add: isdigit_def)
  with p have r: "CHR ''R'' \<notin> set ?s" and sp: "CHR '' '' \<notin> set ?s"
    by blast+
  have rs0: "py_replace ''R$'' [] ?s = ?s" by (rule py_replace_absent [OF r])
  from sp have ss0: "filter (\<lambda>x. x \<noteq> CHR '' '') ?s = ?s"
    by (intro filter_True) auto
  consider "pre = []" | "pre = ''R$''" | "pre = ''R$ ''" using pre by auto
  then have "filter (\<lambda>x. x \<noteq> CHR '' '') (py_replace ''R$'' [] (pre @ ?s)) = ?s"
  proof cases
    case 1
    then show ?thesis by (simp only: append_Nil rs0 ss0)
  next
    case 2
    then have "py_replace ''R$'' [] (pre @ ?s) = ?s"
      using py_replace_currency(1) [OF r] by simp
    then show ?thesis by (simp only: ss0)
  next
    case 3
    then have "py_replace ''R$'' [] (pre @ ?s) = CHR '' '' # ?s"
      using py_replace_currency(2) [OF r] by simp
    then show ?thesis using ss0 by simp
  qed
  then have rs: "py_replace '' '' [] (py_replace ''R$'' [] (pre @ ?s)) = ?s"
    by (simp only: py_replace_delete)
  from fp have q: "\<forall>c\<in>set ?t. isdigit c \<or> c \<in> set ''.,-+''"
    by (auto simp: list_all_iff)
  have ds: "list_all isdigit (filter isdigit w)" by (simp add: list_all_iff)
  have nd: "\<not> isdigit CHR ''.''" by (simp add: isdigit_def)
  have sg: "split_sign ?t = (False, ?t)"
    using nd by (cases "filter isdigit w") (auto simp: split_sign_def isdigit_def list_all_iff dest!: filter_eq_ConsD)
  have fl: "float_of_str ?t = Some (to_double (of_nat (digits_val (filter isdigit w @ fp)) / 10 ^ length fp))"
    by (simp add: float_of_str_plain [OF q] sg scan_number_plain [OF ds fp nz] del: append_Cons)
  have ns3: "?s \<noteq> []" by simp
  then have "hd ?s \<in> set ?s" "last ?s \<in> set ?s"
    by (rule hd_in_set, rule last_in_set)
  with p not_space_plain have ns: "\<not> isspace (hd ?s)" "\<not> isspace (last ?s)"
    by blast+
  have "\<not> isspace (hd (pre @ ?s))"
    using pre ns(1) by (auto simp: isspace_def)
  moreover have "\<not> isspace (last (pre @ ?s))"
    using ns(2) ns3 by (simp del: append_Cons)
  ultimately have st: "py_strip (pre @ ?s) = pre @ ?s"
    by (intro py_strip_id) simp
  have ne: "pre @ ?s \<noteq> []" "CHR '','' \<in> set ?s" by simp_all
  show ?thesis
    by (simp only: parse_ptbr_money_def money_text_def money_clean_def comma_text_def pyval.case Let_def st rs ne if_False if_True
        comma_clean [OF w fp] fl option.case)
qed

lemmas parse_eval = parse_ptbr_number_def parse_ptbr_money_def number_text_def money_text_def
  number_clean_def money_clean_def comma_text_def Decimal_def float_of_str_def
  float_of_Decimal_def float_isspace_def split_sign_def scan_number_def scan_exponent_def
  digits_val_def digit_val_def pow10_def float_of_int_def


lemma filter_py_replace:
  "\<forall>c\<in>set old. \<not> P c \<Longrightarrow> filter P (py_replace old [] s) = filter P s"
proof (induction "length s" arbitrary: s rule: less_induct)
  case less
  show ?case
  proof (cases "old = [] \<or> s = []")
    case True
    then show ?thesis using less.prems
      by (auto simp: py_replace.simps [of old "[]" s])
  next
    case False
    then obtain c cs where s: "s = c # cs" and old: "old \<noteq> []" by (cases s) auto
    show ?thesis
    proof (cases "prefix old s")
      case True
      then obtain r where r: "s = old @ r" by (auto simp: prefix_def)
      with old have "length r < length s" by simp
      from less.hyps [OF this less.prems] True r old less.prems show ?thesis
        by (simp add: py_replace.simps [of old "[]" "old @ r"] filter_empty_conv [THEN iffD2])
    next
      case False
      from s have "length cs < length s" by simp
      from less.hyps [OF this less.prems] False s old show ?thesis
        by (simp add: py_replace_Cons)
    qed
  qed
qed



lemma filter_dropWhile_space:
  "\<forall>c. isspace c \<longrightarrow> \<not> P c \<Longrightarrow> filter P (dropWhile isspace s) = filter P s"
  by (induction s) auto

lemma filter_py_strip:
  assumes "\<forall>c. isspace c \<longrightarrow> \<not> P c"
  shows "filter P (py_strip s) = filter P s"
proof -
  have "filter P (py_strip s) = rev (filter P (dropWhile isspace (rev (dropWhile isspace s))))"
    by (simp add: py_strip_def rev_filter)
  also have "\<dots> = rev (filter P (rev (dropWhile isspace s)))"
    by (simp only: filter_dropWhile_space [OF assms])
  also have "\<dots> = filter P (dropWhile isspace s)"
    by (simp add: rev_filter [symmetric])
  finally show ?thesis
    by (simp only: filter_dropWhile_space [OF assms])
qed

lemma number_clean_strip: "number_clean (py_strip s) = number_clean s"
  unfolding number_clean_def
  by (rule filter_py_strip) (auto simp: isspace_def isdigit_def)

lemma comma_text_shape:
  assumes sg: "sg \<in> {[], ''-'', ''+''}" and wx: "\<forall>c\<in>set (w @ x). isdigit c \<or> c = CHR ''.''"
  shows "comma_text (sg @ w @ CHR '','' # x) = sg @ filter isdigit w @ CHR ''.'' # filter isdigit x"
proof -
  have d: "\<not> isdigit CHR ''.''" "\<not> isdigit CHR '',''" by (simp_all add: isdigit_def)
  have a: "filter (\<lambda>c. c \<noteq> CHR ''.'') u = filter isdigit u" if "\<forall>c\<in>set u. isdigit c \<or> c = CHR ''.''" for u
    using that d by (intro filter_cong) auto
  have b: "map (\<lambda>c. if c = CHR '','' then CHR ''.'' else c) (filter isdigit u) = filter isdigit u" for u
    using d by (intro map_idI) auto
  from sg have s1: "filter (\<lambda>c. c \<noteq> CHR ''.'') sg = sg"
    and s2: "map (\<lambda>c. if c = CHR '','' then CHR ''.'' else c) sg = sg"
    by auto
  from wx have w: "\<forall>c\<in>set w. isdigit c \<or> c = CHR ''.''" and x: "\<forall>c\<in>set x. isdigit c \<or> c = CHR ''.''"
    by auto
  show ?thesis
    by (simp add: comma_text_def py_replace_delete py_replace_char a [OF w] a [OF x] b s1 s2)
qed

lemma read_signed_numeral:
  assumes sg: "sg \<in> {[], ''-'', ''+''}" and ds: "list_all isdigit ds" and fs: "list_all isdigit fs"
    and nz: "ds @ fs \<noteq> []"
  shows "Decimal (sg @ ds @ CHR ''.'' # fs)
           = Some (DFinite ((if sg = ''-'' then - 1 else 1) * (of_nat (digits_val (ds @ fs)) / 10 ^ length fs)))"
    and "float_of_str (sg @ ds @ CHR ''.'' # fs)
           = Some (to_double ((if sg = ''-'' then - 1 else 1) * (of_nat (digits_val (ds @ fs)) / 10 ^ length fs)))"
proof -
  let ?b = "ds @ CHR ''.'' # fs"
  have nd: "\<not> isdigit CHR ''-''" "\<not> isdigit CHR ''+''" by (simp_all add: isdigit_def)
  from ds fs sg have p: "\<forall>c\<in>set (sg @ ?b). isdigit c \<or> c \<in> set ''.,-+''"
    by (auto simp: list_all_iff)
  have hd: "?b \<noteq> [] \<and> hd ?b \<noteq> CHR ''-'' \<and> hd ?b \<noteq> CHR ''+''"
    using ds nd by (cases ds) (auto simp: list_all_iff)
  then have s0: "split_sign ?b = (False, ?b)"
    by (cases ?b) (auto simp: split_sign_def)
  consider "sg = []" | "sg = ''-''" | "sg = ''+''" using sg by auto
  then have ss: "split_sign (sg @ ?b) = (sg = ''-'', ?b)"
  proof cases
    case 1
    with s0 show ?thesis by (simp only: append_Nil) simp
  next
    case 2
    then show ?thesis by (simp add: split_sign_def)
  next
    case 3
    then show ?thesis by (simp add: split_sign_def)
  qed
  show "Decimal (sg @ ?b)
           = Some (DFinite ((if sg = ''-'' then - 1 else 1) * (of_nat (digits_val (ds @ fs)) / 10 ^ length fs)))"
    by (simp add: Decimal_plain [OF p] ss scan_number_plain [OF ds fs nz] del: append_Cons)
  show "float_of_str (sg @ ?b)
           = Some (to_double ((if sg = ''-'' then - 1 else 1) * (of_nat (digits_val (ds @ fs)) / 10 ^ length fs)))"
    by (simp add: float_of_str_plain [OF p] ss scan_number_plain [OF ds fs nz] del: append_Cons)
qed

lemma signed_comma_number:
  assumes c: "number_clean v = sg @ w @ CHR '','' # x"
    and sg: "sg \<in> {[], ''-'', ''+''}" and wx: "\<forall>c\<in>set (w @ x). isdigit c \<or> c = CHR ''.''"
    and nz: "filter isdigit (w @ x) \<noteq> []"
  shows "parse_ptbr_number (PStr v)
           = Inr (to_double ((if sg = ''-'' then - 1 else 1) *
                  (of_nat (digits_val (filter isdigit (w @ x))) / 10 ^ length (filter isdigit x))))"
proof -
  from c have c': "number_clean (py_strip v) = sg @ w @ CHR '','' # x"
    by (simp only: number_clean_strip)
  then have ne: "py_strip v \<noteq> []" by (auto simp: number_clean_def)
  have ds: "list_all isdigit (filter isdigit w)" "list_all isdigit (filter isdigit x)"
    by (simp_all add: list_all_iff)
  from nz have nz': "filter isdigit w @ filter isdigit x \<noteq> []" by simp
  have t: "number_text (py_strip v) = sg @ filter isdigit w @ CHR ''.'' # filter isdigit x"
    by (simp only: number_text_def c' comma_text_shape [OF sg wx])
  show ?thesis
    using ne
    by (simp add: parse_ptbr_number_def t read_signed_numeral(1) [OF sg ds nz'] float_of_Decimal_def
        del: append_Cons)
qed

lemma signed_comma_money:
  assumes c: "money_clean (py_strip v) = sg @ w @ CHR '','' # x"
    and sg: "sg \<in> {[], ''-'', ''+''}" and wx: "\<forall>c\<in>set (w @ x). isdigit c \<or> c = CHR ''.''"
    and nz: "filter isdigit (w @ x) \<noteq> []"
  shows "parse_ptbr_money (PStr v)
           = Inr (to_double ((if sg = ''-'' then - 1 else 1) *
                  (of_nat (digits_val (filter isdigit (w @ x))) / 10 ^ length (filter isdigit x))))"
proof -
  from c have ne: "py_strip v \<noteq> []"
    by (auto simp: money_clean_def py_replace_Nil)
  have ds: "list_all isdigit (filter isdigit w)" "list_all isdigit (filter isdigit x)"
    by (simp_all add: list_all_iff)
  from nz have nz': "filter isdigit w @ filter isdigit x \<noteq> []" by simp
  have t: "money_text (py_strip v) = sg @ filter isdigit w @ CHR ''.'' # filter isdigit x"
    by (simp only: money_text_def c comma_text_shape [OF sg wx])
  show ?thesis
    using ne
    by (simp add: parse_ptbr_money_def t read_signed_numeral(2) [OF sg ds nz'] del: append_Cons)
qed

lemma comma_kept:
  assumes "CHR '','' \<in> set v"
  shows "CHR '','' \<in> set (number_clean v)" and "CHR '','' \<in> set (money_clean (py_strip v))"
    and "py_strip v \<noteq> []"
proof -
  show a: "CHR '','' \<in> set (number_clean v)"
    using assms by (simp add: number_clean_def)
  from a have "number_clean v \<noteq> []" by auto
  then have "number_clean (py_strip v) \<noteq> []"
    by (simp add: number_clean_strip)
  then show ne: "py_strip v \<noteq> []" by (auto simp: number_clean_def)
  let ?P = "\<lambda>c. c = CHR '',''"
  have sp: "\<forall>c. isspace c \<longrightarrow> \<not> ?P c" by (simp add: isspace_def)
  have np: "\<forall>c\<in>set ''R$''. \<not> ?P c" by simp
  have "filter ?P (money_clean (py_strip v))
          = filter ?P (filter (\<lambda>x. x \<noteq> CHR '' '') (py_replace ''R$'' [] (py_strip v)))"
    by (simp only: money_clean_def py_replace_delete)
  also have "\<dots> = filter ?P (py_replace ''R$'' [] (py_strip v))"
    unfolding filter_filter by (rule filter_cong) auto
  also have "\<dots> = filter ?P (py_strip v)"
    by (rule filter_py_replace [OF np])
  finally have "filter ?P (money_clean (py_strip v)) = filter ?P (py_strip v)" .
  also have "\<dots> = filter ?P v" by (rule filter_py_strip [OF sp])
  finally have "filter ?P (money_clean (py_strip v)) \<noteq> []"
    using assms by (simp add: filter_empty_conv)
  then show "CHR '','' \<in> set (money_clean (py_strip v))"
    by (auto simp: filter_empty_conv)
qed

lemma comma_transform:
  assumes "CHR '','' \<in> set v"
  shows "parse_ptbr_number (PStr v) =
           (case Decimal (map (\<lambda>c. if c = CHR '','' then CHR ''.'' else c)
                            (filter (\<lambda>c. c \<noteq> CHR ''.'') (number_clean v))) of
              None \<Rightarrow> Inr (Finite 0)
            | Some d \<Rightarrow> (case float_of_Decimal d of None \<Rightarrow> Inr (Finite 0) | Some f \<Rightarrow> Inr f))"
    and "parse_ptbr_money (PStr v) =
           (case float_of_str (map (\<lambda>c. if c = CHR '','' then CHR ''.'' else c)
                            (filter (\<lambda>c. c \<noteq> CHR ''.'') (money_clean (py_strip v)))) of
              None \<Rightarrow> Inr (Finite 0)
            | Some f \<Rightarrow> Inr f)"
  using comma_kept [OF assms]
  by (simp_all add: parse_ptbr_number_def parse_ptbr_money_def number_text_def money_text_def
      comma_text_def number_clean_strip py_replace_delete py_replace_char)

section \<open>The money parsers on the documented inputs\<close>

text \<open>
  C4. Both money parsers (\<open>parse_ptbr_number\<close> of the package and \<open>parse_ptbr_money\<close> of
  the scripts) meet the test vectors: \<open>"R$ 4.374,34"\<close> and \<open>"4374,34"\<close> give the float
  4374.34, the empty string and \<open>None\<close> give 0.0, and the integer 1500 gives 1500.0. (A float
  literal is the float nearest to its decimal: \<open>to_double\<close> of it.) More generally an
  \<open>int\<close> goes through \<open>float\<close> and a \<open>float\<close> is returned as it is. For every string with
  a comma, the text the parser has cleaned is read with its points deleted and its commas
  turned into points. So whenever the cleaned text is an optional sign, digits and points, a
  comma, and digits and points (whatever stood around them in the cell), the result is the
  signed number whose integer part are the digits before the comma and whose decimals are
  the digits after it; in particular for such a text as it stands, with or without the
  currency sign before it.
\<close>

theorem parse_money_vectors:
  "parse_ptbr_number (PStr ''R$ 4.374,34'') = Inr (to_double (437434 / 100)) \<and>
   parse_ptbr_money (PStr ''R$ 4.374,34'') = Inr (to_double (437434 / 100)) \<and>
   parse_ptbr_number (PStr ''4374,34'') = Inr (to_double (437434 / 100)) \<and>
   parse_ptbr_money (PStr ''4374,34'') = Inr (to_double (437434 / 100)) \<and>
   parse_ptbr_number (PStr []) = Inr (to_double 0) \<and>
   parse_ptbr_money (PStr []) = Inr (to_double 0) \<and>
   parse_ptbr_number PNone = Inr (to_double 0) \<and>
   parse_ptbr_money PNone = Inr (to_double 0) \<and>
   parse_ptbr_number (PInt 1500) = Inr (to_double 1500) \<and>
   parse_ptbr_money (PInt 1500) = Inr (to_double 1500) \<and>
   (\<forall>n. parse_ptbr_number (PInt n) = float_of_int n \<and> parse_ptbr_money (PInt n) = float_of_int n) \<and>
   (\<forall>f. parse_ptbr_number (PFloat f) = Inr f \<and> parse_ptbr_money (PFloat f) = Inr f) \<and>
   (\<forall>v. CHR '','' \<in> set v \<longrightarrow>
      parse_ptbr_number (PStr v) =
        (case Decimal (map (\<lambda>c. if c = CHR '','' then CHR ''.'' else c)
                         (filter (\<lambda>c. c \<noteq> CHR ''.'') (number_clean v))) of
           None \<Rightarrow> Inr (Finite 0)
         | Some d \<Rightarrow> (case float_of_Decimal d of None \<Rightarrow> Inr (Finite 0) | Some f \<Rightarrow> Inr f)) \<and>
      parse_ptbr_money (PStr v) =
        (case float_of_str (map (\<lambda>c. if c = CHR '','' then CHR ''.'' else c)
                         (filter (\<lambda>c. c \<noteq> CHR ''.'') (money_clean (py_strip v)))) of
           None \<Rightarrow> Inr (Finite 0)
         | Some f \<Rightarrow> Inr f)) \<and>
   (\<forall>v sg w x.
      number_clean v = sg @ w @ '','' @ x \<and> sg \<in> {[], ''-'', ''+''} \<and>
      (\<forall>c\<in>set (w @ x). isdigit c \<or> c = CHR ''.'') \<and> filter isdigit (w @ x) \<noteq> [] \<longrightarrow>
      parse_ptbr_number (PStr v)
        = Inr (to_double ((if sg = ''-'' then - 1 else 1) *
               (of_nat (digits_val (filter isdigit (w @ x))) / 10 ^ length (filter isdigit x))))) \<and>
   (\<forall>v sg w x.
      money_clean (py_strip v) = sg @ w @ '','' @ x \<and> sg \<in> {[], ''-'', ''+''} \<and>
      (\<forall>c\<in>set (w @ x). isdigit c \<or> c = CHR ''.'') \<and> filter isdigit (w @ x) \<noteq> [] \<longrightarrow>
      parse_ptbr_money (PStr v)
        = Inr (to_double ((if sg = ''-'' then - 1 else 1) *
               (of_nat (digits_val (filter isdigit (w @ x))) / 10 ^ length (filter isdigit x))))) \<and>
   (\<forall>pre w fp.
      pre \<in> {[], ''R$'', ''R$ ''} \<and> (\<forall>c\<in>set w. isdigit c \<or> c = CHR ''.'') \<and>
      list_all isdigit fp \<and> filter isdigit w @ fp \<noteq> [] \<longrightarrow>
      parse_ptbr_number (PStr (pre @ w @ '','' @ fp))
        = Inr (to_double (of_nat (digits_val (filter isdigit w @ fp)) / 10 ^ length fp)) \<and>
      parse_ptbr_money (PStr (pre @ w @ '','' @ fp))
        = Inr (to_double (of_nat (digits_val (filter isdigit w @ fp)) / 10 ^ length fp)))"
proof -
  have v: "parse_ptbr_number (PStr ''R$ 4.374,34'') = Inr (to_double (437434 / 100))"
    "parse_ptbr_money (PStr ''R$ 4.374,34'') = Inr (to_double (437434 / 100))"
    "parse_ptbr_number (PStr ''4374,34'') = Inr (to_double (437434 / 100))"
    "parse_ptbr_money (PStr ''4374,34'') = Inr (to_double (437434 / 100))"
    by (simp_all add: parse_eval str_eval)
  have z: "parse_ptbr_number (PStr []) = Inr (to_double 0)"
    "parse_ptbr_money (PStr []) = Inr (to_double 0)"
    "parse_ptbr_number PNone = Inr (to_double 0)"
    "parse_ptbr_money PNone = Inr (to_double 0)"
    by (simp_all add: parse_ptbr_number_def parse_ptbr_money_def py_strip_def to_double_0)
  have n: "parse_ptbr_number (PInt n) = float_of_int n" "parse_ptbr_money (PInt n) = float_of_int n"
    "parse_ptbr_number (PFloat f) = Inr f" "parse_ptbr_money (PFloat f) = Inr f" for n f
    by (simp_all add: parse_ptbr_number_def parse_ptbr_money_def)
  have i: "float_of_int 1500 = Inr (to_double 1500)"
    by (simp add: float_of_int_def to_double_1500)
  have a: "parse_ptbr_number (PInt 1500) = Inr (to_double 1500)"
    "parse_ptbr_money (PInt 1500) = Inr (to_double 1500)"
    by (simp_all only: n i)
  have s1: "parse_ptbr_number (PStr v)
        = Inr (to_double ((if sg = ''-'' then - 1 else 1) *
               (of_nat (digits_val (filter isdigit (w @ x))) / 10 ^ length (filter isdigit x))))"
    if "number_clean v = sg @ w @ '','' @ x \<and> sg \<in> {[], ''-'', ''+''} \<and>
      (\<forall>c\<in>set (w @ x). isdigit c \<or> c = CHR ''.'') \<and> filter isdigit (w @ x) \<noteq> []" for v sg w x
    using that signed_comma_number [of v sg w x] by simp
  have s2: "parse_ptbr_money (PStr v)
        = Inr (to_double ((if sg = ''-'' then - 1 else 1) *
               (of_nat (digits_val (filter isdigit (w @ x))) / 10 ^ length (filter isdigit x))))"
    if "money_clean (py_strip v) = sg @ w @ '','' @ x \<and> sg \<in> {[], ''-'', ''+''} \<and>
      (\<forall>c\<in>set (w @ x). isdigit c \<or> c = CHR ''.'') \<and> filter isdigit (w @ x) \<noteq> []" for v sg w x
    using that signed_comma_money [of v sg w x] by simp
  have c: "parse_ptbr_number (PStr (pre @ w @ '','' @ fp))
        = Inr (to_double (of_nat (digits_val (filter isdigit w @ fp)) / 10 ^ length fp))"
      "parse_ptbr_money (PStr (pre @ w @ '','' @ fp))
        = Inr (to_double (of_nat (digits_val (filter isdigit w @ fp)) / 10 ^ length fp))"
    if "pre \<in> {[], ''R$'', ''R$ ''} \<and> (\<forall>c\<in>set w. isdigit c \<or> c = CHR ''.'') \<and>
      list_all isdigit fp \<and> filter isdigit w @ fp \<noteq> []" for pre w fp
    using that comma_rule_number [of pre w fp] comma_rule_money [of pre w fp] by simp_all
  show ?thesis
    by (intro conjI allI impI) (rule v z a n comma_transform s1 s2 c | assumption)+
qed

theorem parse_money_vectors_witness:
  "parse_ptbr_number (PStr '' R$ -1.234,56 '') = Inr (to_double (- (123456 / 100))) \<and>
   parse_ptbr_money (PStr '' R$ -1.234,56 '') = Inr (to_double (- (123456 / 100))) \<and>
   parse_ptbr_number (PStr ''+1,2.5'') = Inr (to_double (125 / 100)) \<and>
   parse_ptbr_money (PStr ''+1,2.5'') = Inr (to_double (125 / 100)) \<and>
   parse_ptbr_number (PStr ''R$ 1.234.567,89'') = Inr (to_double (123456789 / 100)) \<and>
   parse_ptbr_money (PStr ''R$ 1.234.567,89'') = Inr (to_double (123456789 / 100))"
proof -
  note T = parse_money_vectors
  from T have g1: "\<forall>v sg w x.
      number_clean v = sg @ w @ '','' @ x \<and> sg \<in> {[], ''-'', ''+''} \<and>
      (\<forall>c\<in>set (w @ x). isdigit c \<or> c = CHR ''.'') \<and> filter isdigit (w @ x) \<noteq> [] \<longrightarrow>
      parse_ptbr_number (PStr v)
        = Inr (to_double ((if sg = ''-'' then - 1 else 1) *
               (of_nat (digits_val (filter isdigit (w @ x))) / 10 ^ length (filter isdigit x))))"
    by (elim conjE)
  from T have g2: "\<forall>v sg w x.
      money_clean (py_strip v) = sg @ w @ '','' @ x \<and> sg \<in> {[], ''-'', ''+''} \<and>
      (\<forall>c\<in>set (w @ x). isdigit c \<or> c = CHR ''.'') \<and> filter isdigit (w @ x) \<noteq> [] \<longrightarrow>
      parse_ptbr_money (PStr v)
        = Inr (to_double ((if sg = ''-'' then - 1 else 1) *
               (of_nat (digits_val (filter isdigit (w @ x))) / 10 ^ length (filter isdigit x))))"
    by (elim conjE)
  from T have g3: "\<forall>pre w fp.
      pre \<in> {[], ''R$'', ''R$ ''} \<and> (\<forall>c\<in>set w. isdigit c \<or> c = CHR ''.'') \<and>
      list_all isdigit fp \<and> filter isdigit w @ fp \<noteq> [] \<longrightarrow>
      parse_ptbr_number (PStr (pre @ w @ '','' @ fp))
        = Inr (to_double (of_nat (digits_val (filter isdigit w @ fp)) / 10 ^ length fp)) \<and>
      parse_ptbr_money (PStr (pre @ w @ '','' @ fp))
        = Inr (to_double (of_nat (digits_val (filter isdigit w @ fp)) / 10 ^ length fp))"
    by (elim conjE)
  have h1: "number_clean '' R$ -1.234,56 '' = ''-'' @ ''1.234'' @ '','' @ ''56'' \<and> ''-'' \<in> {[], ''-'', ''+''} \<and>
      (\<forall>c\<in>set (''1.234'' @ ''56''). isdigit c \<or> c = CHR ''.'') \<and> filter isdigit (''1.234'' @ ''56'') \<noteq> []"
    by (simp add: number_clean_def isdigit_def)
  have h2: "money_clean (py_strip '' R$ -1.234,56 '') = ''-'' @ ''1.234'' @ '','' @ ''56'' \<and> ''-'' \<in> {[], ''-'', ''+''} \<and>
      (\<forall>c\<in>set (''1.234'' @ ''56''). isdigit c \<or> c = CHR ''.'') \<and> filter isdigit (''1.234'' @ ''56'') \<noteq> []"
    by (simp add: money_clean_def str_eval)
  have d1: "(if ''-'' = ''-'' then - 1 else 1) *
      (of_nat (digits_val (filter isdigit (''1.234'' @ ''56''))) / 10 ^ length (filter isdigit ''56'')) = (- (123456 / 100) :: rat)"
    by (simp add: isdigit_def digits_val_def digit_val_def)
  have h3: "number_clean ''+1,2.5'' = ''+'' @ ''1'' @ '','' @ ''2.5'' \<and> ''+'' \<in> {[], ''-'', ''+''} \<and>
      (\<forall>c\<in>set (''1'' @ ''2.5''). isdigit c \<or> c = CHR ''.'') \<and> filter isdigit (''1'' @ ''2.5'') \<noteq> []"
    by (simp add: number_clean_def isdigit_def)
  have h4: "money_clean (py_strip ''+1,2.5'') = ''+'' @ ''1'' @ '','' @ ''2.5'' \<and> ''+'' \<in> {[], ''-'', ''+''} \<and>
      (\<forall>c\<in>set (''1'' @ ''2.5''). isdigit c \<or> c = CHR ''.'') \<and> filter isdigit (''1'' @ ''2.5'') \<noteq> []"
    by (simp add: money_clean_def str_eval)
  have d3: "(if ''+'' = ''-'' then - 1 else 1) *
      (of_nat (digits_val (filter isdigit (''1'' @ ''2.5''))) / 10 ^ length (filter isdigit ''2.5'')) = (125 / 100 :: rat)"
    by (simp add: isdigit_def digits_val_def digit_val_def)
  have h5: "''R$ '' \<in> {[], ''R$'', ''R$ ''} \<and> (\<forall>c\<in>set ''1.234.567''. isdigit c \<or> c = CHR ''.'') \<and>
      list_all isdigit ''89'' \<and> filter isdigit ''1.234.567'' @ ''89'' \<noteq> []"
    by (simp add: isdigit_def)
  have d5: "of_nat (digits_val (filter isdigit ''1.234.567'' @ ''89'')) / 10 ^ length ''89'' = (123456789 / 100 :: rat)"
    by (simp add: isdigit_def digits_val_def digit_val_def)
  note r1 = g1 [THEN spec, THEN spec, THEN spec, THEN spec, THEN mp, OF h1, unfolded d1]
  note r2 = g2 [THEN spec, THEN spec, THEN spec, THEN spec, THEN mp, OF h2, unfolded d1]
  note r3 = g1 [THEN spec, THEN spec, THEN spec, THEN spec, THEN mp, OF h3, unfolded d3]
  note r4 = g2 [THEN spec, THEN spec, THEN spec, THEN spec, THEN mp, OF h4, unfolded d3]
  note r5 = g3 [THEN spec, THEN spec, THEN spec, THEN mp, OF h5, unfolded d5]
  from r1 r2 r3 r4 r5 show ?thesis by simp
qed

section \<open>Totality of the money parsers\<close>




section \<open>The two money parsers compared\<close>

text \<open>
  C5, as the claim has it, fails: the regex of \<open>parse_ptbr_number\<close> deletes every character
  that is not a digit, a sign or a separator, where \<open>parse_ptbr_money\<close> deletes \<open>R$\<close> and
  the spaces only. On \<open>"US$ 5,00"\<close> the first reads 5.0 and the second, left with
  \<open>"US$5.00"\<close>, returns 0.0.
\<close>

theorem parsers_differ:
  "parse_ptbr_number (PStr ''US$ 5,00'') = Inr (Finite 5) \<and>
   parse_ptbr_money (PStr ''US$ 5,00'') = Inr (Finite 0) \<and>
   parse_ptbr_number (PStr ''US$ 5,00'') \<noteq> parse_ptbr_money (PStr ''US$ 5,00'')"
proof -
  have a: "parse_ptbr_number (PStr ''US$ 5,00'') = Inr (Finite 5)"
    by (simp add: parse_eval str_eval to_double_5)
  have b: "parse_ptbr_money (PStr ''US$ 5,00'') = Inr (Finite 0)"
    by (simp add: parse_eval str_eval)
  from a b show ?thesis by simp
qed

lemma texts_agree:
  assumes "\<forall>c\<in>set (py_replace ''R$'' [] s). isdigit c \<or> c \<in> set ''.,-+ ''"
  shows "number_text s = money_text s"
    and "\<forall>c\<in>set (money_text s). isdigit c \<or> c \<in> set ''.,-+''"
proof -
  let ?r = "py_replace ''R$'' [] s"
  let ?P = "\<lambda>c. isdigit c \<or> c \<in> set '',.-+''"
  have np: "\<forall>c\<in>set ''R$''. \<not> ?P c" by (simp add: isdigit_def)
  have "filter ?P s = filter ?P ?r"
    by (rule filter_py_replace [OF np, symmetric])
  also have "\<dots> = filter (\<lambda>x. x \<noteq> CHR '' '') ?r"
  proof (rule filter_cong [OF refl])
    fix c assume "c \<in> set ?r"
    with assms have "isdigit c \<or> c \<in> set ''.,-+ ''" by blast
    moreover have "\<not> isdigit CHR '' ''" by (simp add: isdigit_def)
    ultimately show "?P c = (c \<noteq> CHR '' '')" by auto
  qed
  finally have u: "filter ?P s = py_replace '' '' [] ?r"
    by (simp only: py_replace_delete)
  show "number_text s = money_text s"
    by (simp only: number_text_def money_text_def number_clean_def money_clean_def u)
  have pu: "\<forall>c\<in>set (py_replace '' '' [] ?r). isdigit c \<or> c \<in> set ''.,-+''"
    using assms by (auto simp: py_replace_delete)
  show "\<forall>c\<in>set (money_text s). isdigit c \<or> c \<in> set ''.,-+''"
    using pu by (auto simp: money_text_def money_clean_def comma_text_def py_replace_delete py_replace_char)
qed

text \<open>
  C5, amended. The two parsers return the same result on \<open>None\<close>, on every \<open>int\<close> and
  \<open>float\<close>, and on every string in which, once it is stripped and the occurrences of \<open>R$\<close>
  are deleted, only digits, points, commas, signs and spaces are left.
\<close>

theorem parsers_agree_on_plain:
  "parse_ptbr_number PNone = parse_ptbr_money PNone \<and>
   (\<forall>n. parse_ptbr_number (PInt n) = parse_ptbr_money (PInt n)) \<and>
   (\<forall>f. parse_ptbr_number (PFloat f) = parse_ptbr_money (PFloat f)) \<and>
   (\<forall>v. (\<forall>c\<in>set (py_replace ''R$'' [] (py_strip v)). isdigit c \<or> c \<in> set ''.,-+ '') \<longrightarrow>
        parse_ptbr_number (PStr v) = parse_ptbr_money (PStr v))"
proof -
  have s: "parse_ptbr_number (PStr v) = parse_ptbr_money (PStr v)"
    if h: "\<forall>c\<in>set (py_replace ''R$'' [] (py_strip v)). isdigit c \<or> c \<in> set ''.,-+ ''" for v
  proof -
    note t = texts_agree [OF h]
    from float_Decimal_plain [OF t(2)] show ?thesis
      by (auto simp: parse_ptbr_number_def parse_ptbr_money_def Let_def t(1) split: option.splits)
  qed
  have n: "parse_ptbr_number PNone = parse_ptbr_money PNone"
    "parse_ptbr_number (PInt n) = parse_ptbr_money (PInt n)"
    "parse_ptbr_number (PFloat f) = parse_ptbr_money (PFloat f)" for n f
    by (simp_all add: parse_ptbr_number_def parse_ptbr_money_def)
  show ?thesis
    by (intro conjI allI impI) (rule n s | assumption)+
qed

theorem parsers_agree_on_plain_witness:
  "parse_ptbr_number (PStr '' R$ -1.234,50 '') = parse_ptbr_money (PStr '' R$ -1.234,50 '') \<and>
   parse_ptbr_money (PStr '' R$ -1.234,50 '') = Inr (to_double (- (12345 / 10)))"
proof -
  have h: "\<forall>c\<in>set (py_replace ''R$'' [] (py_strip '' R$ -1.234,50 '')). isdigit c \<or> c \<in> set ''.,-+ ''"
    by (simp add: str_eval)
  from parsers_agree_on_plain have
    "\<forall>v. (\<forall>c\<in>set (py_replace ''R$'' [] (py_strip v)). isdigit c \<or> c \<in> set ''.,-+ '') \<longrightarrow>
        parse_ptbr_number (PStr v) = parse_ptbr_money (PStr v)"
    by (elim conjE)
  from this [THEN spec, THEN mp, OF h]
  have "parse_ptbr_number (PStr '' R$ -1.234,50 '') = parse_ptbr_money (PStr '' R$ -1.234,50 '')" .
  moreover have "parse_ptbr_money (PStr '' R$ -1.234,50 '') = Inr (to_double (- (12345 / 10)))"
    by (simp add: parse_eval str_eval)
  ultimately show ?thesis by simp
qed

section \<open>The level rate resolver, case by case\<close>








section \<open>The date lookup on a missing shipment number\<close>

text \<open>
  C10. For a falsy shipment number (\<open>None\<close> or the empty string) both lookup functions
  return \<open>(None, None)\<close> at once: the trail of driver calls is as it was, so no connection
  was opened and no query was run, whatever the state of the database.
\<close>

theorem get_dates_falsy_no_query:
  "shipment_number = None \<or> shipment_number = Some [] \<Longrightarrow>
     get_shipment_dates_by_number db shipment_number evs = (evs, Inr (None, None)) \<and>
     get_dates_by_shipment_number db shipment_number evs = (evs, Inr (None, None))"
  by (auto simp: get_shipment_dates_by_number_def get_dates_by_shipment_number_def)

theorem get_dates_falsy_no_query_witness:
  "get_shipment_dates_by_number \<lparr>reachable = False, shipment_house = (\<lambda>s. None)\<rparr> (Some []) []
     = ([], Inr (None, None)) \<and>
   get_dates_by_shipment_number \<lparr>reachable = False, shipment_house = (\<lambda>s. None)\<rparr> None [Connect]
     = ([Connect], Inr (None, None))"
  using get_dates_falsy_no_query [of "Some []" "\<lparr>reachable = False, shipment_house = (\<lambda>s. None)\<rparr>" "[]"]
    get_dates_falsy_no_query [of None "\<lparr>reachable = False, shipment_house = (\<lambda>s. None)\<rparr>" "[Connect]"]
  by simp

text \<open>A shipment number that is not falsy does reach the driver.\<close>

lemma get_dates_truthy_connects:
  "sn \<noteq> [] \<Longrightarrow> fst (get_shipment_dates_by_number db (Some sn) evs) \<noteq> evs"
  by (simp add: get_shipment_dates_by_number_def)

section \<open>The column names of the spreadsheet reader\<close>

text \<open>
  C8. The claim holds that the derived column names are pairwise distinct. They are not: a
  header that already has the form of a suffixed name meets the suffixed name of a
  repeated header. For the header row \<open>A, A__2, A\<close> the second and the third column are
  both named \<open>A__2\<close>, and the record of a data row then holds two cells instead of three.
\<close>

theorem safe_headers_collision:
  "safe_headers [''A'', ''A__2'', ''A''] = [''A'', ''A__2'', ''A__2''] \<and>
   \<not> distinct (safe_headers [''A'', ''A__2'', ''A'']) \<and>
   get_records_tolerant [[''A'', ''A__2'', ''A''], [''1'', ''2'', ''3'']]
     = [[(''A'', ''1''), (''A__2'', ''3'')]]"
proof -
  have h: "safe_headers [''A'', ''A__2'', ''A''] = [''A'', ''A__2'', ''A__2'']"
    by (simp add: safe_headers_def str_eval)
  have "get_records_tolerant [[''A'', ''A__2'', ''A''], [''1'', ''2'', ''3'']]
          = [[(''A'', ''1''), (''A__2'', ''3'')]]"
    by (simp add: get_records_tolerant_def h py_dict_def str_eval)
  with h show ?thesis by simp
qed

end
